theory Spec2Isabelle
  imports Complex_Main
begin

section \<open>Python values and the built-ins that views.py calls\<close>

text \<open>
  The request body is decoded by \<^verbatim>\<open>json.loads\<close>, so every value that reaches the
  functions below is a JSON value: \<^verbatim>\<open>None\<close>, a bool, an int, a float, a str, a list or
  a dict with string keys. Text is ASCII: a \<open>char\<close> is one character of the Python str.

  A float is kept by its exact value. Every finite double is a rational, so a statement
  about all \<open>Finite q\<close> covers all finite doubles. \<^verbatim>\<open>json.loads\<close> gives infinities
  for \<^verbatim>\<open>Infinity\<close> and for literals beyond the double range such as \<^verbatim>\<open>1e999\<close>.
\<close>

datatype pyerr = ValueError | TypeError | IndexError | KeyError | AttributeError | OverflowError

datatype pyfloat = Finite rat | PosInf | NegInf | NaN

datatype pyval =
    PNone
  | PBool bool
  | PInt int
  | PFloat pyfloat
  | PStr string
  | PList "pyval list"
  | PDict "(string \<times> pyval) list"

text \<open>Sequencing of calls that may raise: the first exception ends the computation.\<close>

definition bind_err :: "pyerr + 'a \<Rightarrow> ('a \<Rightarrow> pyerr + 'b) \<Rightarrow> pyerr + 'b" where
  "bind_err r f = (case r of Inl e \<Rightarrow> Inl e | Inr x \<Rightarrow> f x)"

text \<open>
  \<^verbatim>\<open>try: body  except (E1, ..., En): pass\<close> where the body updates one local variable:
  \<open>body\<close> returns the value of the variable on normal exit, or the exception together
  with the value the variable had when it was raised.
\<close>

definition except_pass :: "pyerr list \<Rightarrow> (pyerr \<times> 'a) + 'a \<Rightarrow> pyerr + 'a" where
  "except_pass caught body =
     (case body of
        Inr v \<Rightarrow> Inr v
      | Inl (e, v) \<Rightarrow> if e \<in> set caught then Inr v else Inl e)"

text \<open>Raising inside a \<^verbatim>\<open>try\<close> body while the variable holds \<open>v\<close>.\<close>

definition raising :: "'v \<Rightarrow> pyerr + 'a \<Rightarrow> ('a \<Rightarrow> (pyerr \<times> 'v) + 'b) \<Rightarrow> (pyerr \<times> 'v) + 'b" where
  "raising v r f = (case r of Inl e \<Rightarrow> Inl (e, v) | Inr x \<Rightarrow> f x)"

subsection \<open>Characters\<close>

definition is_digit :: "char \<Rightarrow> bool" where
  "is_digit c \<longleftrightarrow> 48 \<le> (of_char c :: nat) \<and> (of_char c :: nat) \<le> 57"

definition digit_val :: "char \<Rightarrow> int" where
  "digit_val c = int (of_char c) - 48"

text \<open>
  The characters \<^verbatim>\<open>int()\<close> skips as white space around the number in an ASCII
  string: space and \<^verbatim>\<open>\t \n \v \f \r\<close>.
\<close>

definition is_space :: "char \<Rightarrow> bool" where
  "is_space c \<longleftrightarrow> (of_char c :: nat) \<in> set [32, 9, 10, 11, 12, 13]"

definition upper_letters :: string where
  "upper_letters = ''ABCDEFGHIJKLMNOPQRSTUVWXYZ''"

definition lower_letters :: string where
  "lower_letters = ''abcdefghijklmnopqrstuvwxyz''"

definition lower_char :: "char \<Rightarrow> char" where
  "lower_char c = (case map_of (zip upper_letters lower_letters) c of Some l \<Rightarrow> l | None \<Rightarrow> c)"

text \<open>\<^verbatim>\<open>s.lower()\<close>\<close>

definition py_lower :: "string \<Rightarrow> string" where
  "py_lower s = map lower_char s"

text \<open>\<^verbatim>\<open>k in s\<close> for two strings: \<open>k\<close> starts at some position of \<open>s\<close>.\<close>

fun starts_with :: "string \<Rightarrow> string \<Rightarrow> bool" where
  "starts_with [] s = True"
| "starts_with (k # ks) [] = False"
| "starts_with (k # ks) (c # cs) = (k = c \<and> starts_with ks cs)"

fun py_in :: "string \<Rightarrow> string \<Rightarrow> bool" where
  "py_in k [] = (k = [])"
| "py_in k (c # cs) = (starts_with k (c # cs) \<or> py_in k cs)"

subsection \<open>\<^verbatim>\<open>int(x)\<close>\<close>

text \<open>
  On a string: white space is skipped at both ends, one sign may follow, and the rest
  is a non-empty run of decimal digits in which single underscores may separate digits.
  A number of more than 4300 digits (underscores not counted) is refused with
  \<^verbatim>\<open>ValueError\<close>, the default limit of Python 3.11. \<open>digits_value n acc s\<close> reads
  the rest \<open>s\<close> of the run after \<open>n\<close> digits of value \<open>acc\<close>.
\<close>

definition MAX_STR_DIGITS :: nat where
  "MAX_STR_DIGITS = 4300"

fun digits_value :: "nat \<Rightarrow> int \<Rightarrow> string \<Rightarrow> int option" where
  "digits_value n acc [] = (if n \<le> MAX_STR_DIGITS then Some acc else None)"
| "digits_value n acc [c] =
     (if is_digit c \<and> Suc n \<le> MAX_STR_DIGITS then Some (10 * acc + digit_val c) else None)"
| "digits_value n acc (c # d # cs) =
     (if is_digit c then digits_value (Suc n) (10 * acc + digit_val c) (d # cs)
      else if c = CHR ''_'' \<and> is_digit d then
        digits_value (Suc n) (10 * acc + digit_val d) cs
      else None)"

definition unsigned_of_str :: "string \<Rightarrow> int option" where
  "unsigned_of_str s =
     (case s of
        [] \<Rightarrow> None
      | c # cs \<Rightarrow> if is_digit c then digits_value 1 (digit_val c) cs else None)"

definition strip :: "string \<Rightarrow> string" where
  "strip s = rev (dropWhile is_space (rev (dropWhile is_space s)))"

definition int_of_str :: "string \<Rightarrow> int option" where
  "int_of_str s =
     (case strip s of
        [] \<Rightarrow> None
      | c # cs \<Rightarrow>
          if c = CHR ''-'' then map_option uminus (unsigned_of_str cs)
          else if c = CHR ''+'' then unsigned_of_str cs
          else unsigned_of_str (c # cs))"

text \<open>
  \<^verbatim>\<open>int\<close> truncates a finite float towards zero, raises \<^verbatim>\<open>OverflowError\<close> on an
  infinity and \<^verbatim>\<open>ValueError\<close> on a NaN or on a string that is not a number, and
  \<^verbatim>\<open>TypeError\<close> on \<^verbatim>\<open>None\<close>, a list or a dict.
\<close>

fun py_int :: "pyval \<Rightarrow> pyerr + int" where
  "py_int PNone = Inl TypeError"
| "py_int (PBool b) = Inr (if b then 1 else 0)"
| "py_int (PInt n) = Inr n"
| "py_int (PFloat (Finite q)) = Inr (if 0 \<le> q then \<lfloor>q\<rfloor> else \<lceil>q\<rceil>)"
| "py_int (PFloat PosInf) = Inl OverflowError"
| "py_int (PFloat NegInf) = Inl OverflowError"
| "py_int (PFloat NaN) = Inl ValueError"
| "py_int (PStr s) = (case int_of_str s of None \<Rightarrow> Inl ValueError | Some n \<Rightarrow> Inr n)"
| "py_int (PList xs) = Inl TypeError"
| "py_int (PDict kvs) = Inl TypeError"

subsection \<open>\<^verbatim>\<open>float(x)\<close>\<close>

text \<open>
  Parsing a string into a double rounds, which is outside this development: the parser
  is a parameter \<open>strtod\<close> (\<open>None\<close> where Python raises \<^verbatim>\<open>ValueError\<close>), and every
  statement below holds for each parser. An int is converted with rounding to nearest;
  that rounding is monotone and leaves 38 and 39 fixed, so the int is kept by its exact
  value: the only use of the result is the comparison with 38.5. The conversion raises
  \<^verbatim>\<open>OverflowError\<close> from \<open>2^1024 - 2^970\<close> on, the first magnitude that rounds beyond the
  largest double.
\<close>

fun py_float :: "(string \<Rightarrow> pyfloat option) \<Rightarrow> pyval \<Rightarrow> pyerr + pyfloat" where
  "py_float strtod PNone = Inl TypeError"
| "py_float strtod (PBool b) = Inr (Finite (if b then 1 else 0))"
| "py_float strtod (PInt n) =
     (if 2 ^ 1024 - 2 ^ 970 \<le> \<bar>n\<bar> then Inl OverflowError else Inr (Finite (of_int n)))"
| "py_float strtod (PFloat f) = Inr f"
| "py_float strtod (PStr s) = (case strtod s of None \<Rightarrow> Inl ValueError | Some f \<Rightarrow> Inr f)"
| "py_float strtod (PList xs) = Inl TypeError"
| "py_float strtod (PDict kvs) = Inl TypeError"

text \<open>\<^verbatim>\<open>f > q\<close> for a float \<open>f\<close> and a finite constant \<open>q\<close>; every comparison with a NaN is false.\<close>

fun float_gt :: "pyfloat \<Rightarrow> rat \<Rightarrow> bool" where
  "float_gt (Finite x) q = (q < x)"
| "float_gt PosInf q = True"
| "float_gt NegInf q = False"
| "float_gt NaN q = False"

subsection \<open>Subscripts, dictionaries, truth values\<close>

text \<open>
  \<^verbatim>\<open>x[0]\<close>: the first character of a str (a str of length one), the first element of a
  list, \<^verbatim>\<open>KeyError\<close> on a dict (a JSON object has only string keys), \<^verbatim>\<open>IndexError\<close> on
  an empty str or list, \<^verbatim>\<open>TypeError\<close> on everything else.
\<close>

fun py_getitem0 :: "pyval \<Rightarrow> pyerr + pyval" where
  "py_getitem0 (PStr s) = (case s of [] \<Rightarrow> Inl IndexError | c # cs \<Rightarrow> Inr (PStr [c]))"
| "py_getitem0 (PList xs) = (case xs of [] \<Rightarrow> Inl IndexError | x # ys \<Rightarrow> Inr x)"
| "py_getitem0 (PDict kvs) = Inl KeyError"
| "py_getitem0 PNone = Inl TypeError"
| "py_getitem0 (PBool b) = Inl TypeError"
| "py_getitem0 (PInt n) = Inl TypeError"
| "py_getitem0 (PFloat f) = Inl TypeError"

text \<open>\<^verbatim>\<open>data[key]\<close> on the decoded request body.\<close>

definition py_lookup :: "(string \<rightharpoonup> pyval) \<Rightarrow> string \<Rightarrow> pyerr + pyval" where
  "py_lookup data k = (case data k of None \<Rightarrow> Inl KeyError | Some v \<Rightarrow> Inr v)"

text \<open>The truth value that \<^verbatim>\<open>if x:\<close> tests.\<close>

fun py_truthy :: "pyval \<Rightarrow> bool" where
  "py_truthy PNone = False"
| "py_truthy (PBool b) = b"
| "py_truthy (PInt n) = (n \<noteq> 0)"
| "py_truthy (PFloat f) = (f \<noteq> Finite 0)"
| "py_truthy (PStr s) = (s \<noteq> [])"
| "py_truthy (PList xs) = (xs \<noteq> [])"
| "py_truthy (PDict kvs) = (kvs \<noteq> [])"

section \<open>validate_priority\<close>

text \<open>
  \<^verbatim>\<open>
  def validate_priority(priority):
      try:
          priority = int(priority)
          return max(1, min(5, priority))
      except (ValueError, TypeError):
          return 1
  \<close>
\<close>

definition validate_priority :: "pyval \<Rightarrow> pyerr + int" where
  "validate_priority priority =
     (case py_int priority of
        Inr p \<Rightarrow> Inr (max 1 (min 5 p))
      | Inl e \<Rightarrow> if e \<in> set [ValueError, TypeError] then Inr 1 else Inl e)"

section \<open>calculate_priority_fallback\<close>

text \<open>
  \<open>data\<close> is the decoded request body, a dictionary from field names to JSON values.
  The function reads the keys \<^verbatim>\<open>cancerStage\<close>, \<^verbatim>\<open>temp\<close>, \<^verbatim>\<open>heart\<close> and
  \<^verbatim>\<open>description\<close>. Each block below is one statement group of the source, taking the
  value of the local variable \<^verbatim>\<open>priority\<close> before it and returning the value after it.
\<close>

text \<open>
  \<^verbatim>\<open>
  try:
      stage = int(data['cancerStage'][0])  # Extract number from "Stage X"
      priority += min(stage - 1, 3)  # Stage 4 adds +3, Stage 1 adds +0
  except (ValueError, IndexError, TypeError):
      pass
  \<close>
\<close>

definition stage_block :: "(string \<rightharpoonup> pyval) \<Rightarrow> int \<Rightarrow> pyerr + int" where
  "stage_block data priority =
     except_pass [ValueError, IndexError, TypeError]
       (raising priority (py_lookup data ''cancerStage'') (\<lambda>cs.
        raising priority (py_getitem0 cs) (\<lambda>c.
        raising priority (py_int c) (\<lambda>stage.
        Inr (priority + min (stage - 1) 3)))))"

text \<open>
  \<^verbatim>\<open>
  try:
      temp = float(data['temp'])
      if temp > 38.5:
          priority += 1
      heart = int(data['heart'])
      if heart > 100 or heart < 60:
          priority += 1
  except (ValueError, TypeError):
      pass
  \<close>
  An exception raised for the heart rate leaves the increment for the temperature in place.
\<close>

definition vitals_block ::
  "(string \<Rightarrow> pyfloat option) \<Rightarrow> (string \<rightharpoonup> pyval) \<Rightarrow> int \<Rightarrow> pyerr + int" where
  "vitals_block strtod data priority =
     except_pass [ValueError, TypeError]
       (raising priority (py_lookup data ''temp'') (\<lambda>tv.
        raising priority (py_float strtod tv) (\<lambda>temp.
        let priority1 = (if float_gt temp (77 / 2) then priority + 1 else priority) in
        raising priority1 (py_lookup data ''heart'') (\<lambda>hv.
        raising priority1 (py_int hv) (\<lambda>heart.
        Inr (if heart > 100 \<or> heart < 60 then priority1 + 1 else priority1))))))"

definition emergency_keywords :: "string list" where
  "emergency_keywords =
     [''severe'', ''pain'', ''emergency'', ''urgent'', ''bleeding'',
      ''unconscious'', ''vomiting'', ''difficulty breathing'']"

text \<open>
  \<^verbatim>\<open>
  if any(keyword in data['description'].lower() for keyword in emergency_keywords):
      priority += 1
  \<close>
  Only a str has the method \<^verbatim>\<open>lower\<close>; on any other value the call raises
  \<^verbatim>\<open>AttributeError\<close>, outside every \<^verbatim>\<open>try\<close>.
\<close>

definition has_emergency_keyword :: "string \<Rightarrow> bool" where
  "has_emergency_keyword description =
     list_ex (\<lambda>keyword. py_in keyword (py_lower description)) emergency_keywords"

definition keyword_block :: "(string \<rightharpoonup> pyval) \<Rightarrow> int \<Rightarrow> pyerr + int" where
  "keyword_block data priority =
     bind_err (py_lookup data ''description'') (\<lambda>d.
       case d of
         PStr s \<Rightarrow> Inr (if has_emergency_keyword s then priority + 1 else priority)
       | _ \<Rightarrow> Inl AttributeError)"

text \<open>
  \<^verbatim>\<open>
  def calculate_priority_fallback(data):
      priority = 1  # Default priority
      ...
      return min(priority, 5)  # Cap at 5
  \<close>
\<close>

definition calculate_priority_fallback ::
  "(string \<Rightarrow> pyfloat option) \<Rightarrow> (string \<rightharpoonup> pyval) \<Rightarrow> pyerr + int" where
  "calculate_priority_fallback strtod data =
     bind_err (stage_block data 1) (\<lambda>p1.
     bind_err (vitals_block strtod data p1) (\<lambda>p2.
     bind_err (keyword_block data p2) (\<lambda>p3.
     Inr (min p3 5))))"

section \<open>Dates\<close>

text \<open>
  A \<^verbatim>\<open>datetime\<close> is kept as the proleptic Gregorian ordinal of its date
  (\<^verbatim>\<open>date.toordinal()\<close>, 1 for 0001-01-01) and its time of day. Python orders datetimes
  by (year, month, day, hour, ...), which is the order of (ordinal, hour, ...);
  \<^verbatim>\<open>(d1 - d2).days\<close> is the difference of the ordinals. The ordinal of a calendar date is
  computed as \<^verbatim>\<open>_ymd2ord\<close> in the standard library does.
\<close>

record datetime =
  ordinal :: int
  hour :: nat
  minute :: nat
  second :: nat
  microsecond :: nat

definition is_leap :: "int \<Rightarrow> bool" where
  "is_leap year \<longleftrightarrow> year mod 4 = 0 \<and> (year mod 100 \<noteq> 0 \<or> year mod 400 = 0)"

definition days_before_year :: "int \<Rightarrow> int" where
  "days_before_year year =
     (let y = year - 1 in y * 365 + y div 4 - y div 100 + y div 400)"

definition DAYS_IN_MONTH :: "int list" where
  "DAYS_IN_MONTH = [31, 28, 31, 30, 31, 30, 31, 31, 30, 31, 30, 31]"

text \<open>Both functions are called with \<open>1 \<le> month \<le> 12\<close> only.\<close>

definition days_in_month :: "int \<Rightarrow> int \<Rightarrow> int" where
  "days_in_month year month =
     (if month = 2 \<and> is_leap year then 29 else DAYS_IN_MONTH ! nat (month - 1))"

definition days_before_month :: "int \<Rightarrow> int \<Rightarrow> int" where
  "days_before_month year month =
     sum_list (take (nat (month - 1)) DAYS_IN_MONTH)
       + (if month > 2 \<and> is_leap year then 1 else 0)"

definition ymd2ord :: "int \<Rightarrow> int \<Rightarrow> int \<Rightarrow> int" where
  "ymd2ord year month day = days_before_year year + days_before_month year month + day"

text \<open>The ordinal of 9999-12-31, the last date Python represents.\<close>

definition MAXORDINAL :: int where
  "MAXORDINAL = 3652059"

text \<open>The datetime at \<open>h:mi\<close> o'clock of a calendar date, seconds and microseconds zero.\<close>

definition mk_datetime :: "int \<Rightarrow> int \<Rightarrow> int \<Rightarrow> nat \<Rightarrow> nat \<Rightarrow> datetime" where
  "mk_datetime year month day h mi =
     \<lparr>ordinal = ymd2ord year month day, hour = h, minute = mi, second = 0, microsecond = 0\<rparr>"

text \<open>
  \<^verbatim>\<open>dt + timedelta(days=k)\<close> and \<^verbatim>\<open>d + timedelta(days=k)\<close> on a date: the time of day
  stays, and a date outside 0001-01-01 .. 9999-12-31 raises \<^verbatim>\<open>OverflowError\<close>.
\<close>

definition add_days :: "datetime \<Rightarrow> int \<Rightarrow> pyerr + datetime" where
  "add_days dt k =
     (let d = ordinal dt + k
      in if 0 < d \<and> d \<le> MAXORDINAL then Inr (dt\<lparr>ordinal := d\<rparr>) else Inl OverflowError)"

definition date_add_days :: "int \<Rightarrow> int \<Rightarrow> pyerr + int" where
  "date_add_days d k =
     (if 0 < d + k \<and> d + k \<le> MAXORDINAL then Inr (d + k) else Inl OverflowError)"

text \<open>The order of two datetimes, \<^verbatim>\<open>a <= b\<close>.\<close>

definition dt_le :: "datetime \<Rightarrow> datetime \<Rightarrow> bool" where
  "dt_le a b \<longleftrightarrow>
     ordinal a < ordinal b \<or>
     (ordinal a = ordinal b \<and>
      (hour a < hour b \<or> (hour a = hour b \<and>
      (minute a < minute b \<or> (minute a = minute b \<and>
      (second a < second b \<or> (second a = second b \<and>
       microsecond a \<le> microsecond b)))))))"

text \<open>The values a datetime object can hold.\<close>

definition valid_datetime :: "datetime \<Rightarrow> bool" where
  "valid_datetime dt \<longleftrightarrow>
     1 \<le> ordinal dt \<and> ordinal dt \<le> MAXORDINAL \<and>
     hour dt < 24 \<and> minute dt < 60 \<and> second dt < 60 \<and> microsecond dt < 1000000"

subsection \<open>\<^verbatim>\<open>datetime.strptime(s, "%Y-%m-%d")\<close>\<close>

text \<open>
  The standard library turns the format into the regular expression
  \<^verbatim>\<open>(?P<Y>\d\d\d\d)-(?P<m>1[0-2]|0[1-9]|[1-9])-(?P<d>3[0-1]|[1-2]\d|0[1-9]|[1-9]| [1-9])\<close>,
  matches it at the start of the string, and raises \<^verbatim>\<open>ValueError\<close> when there is no
  match, when the match does not reach the end of the string, or when the three fields
  are no calendar date. An argument that is not a str raises \<^verbatim>\<open>TypeError\<close>.
\<close>

definition nonzero_digit :: "char \<Rightarrow> bool" where
  "nonzero_digit c \<longleftrightarrow> is_digit c \<and> c \<noteq> CHR ''0''"

text \<open>The month alternatives, each followed by the literal \<^verbatim>\<open>-\<close>; the rest is returned.\<close>

fun match_month :: "string \<Rightarrow> (int \<times> string) option" where
  "match_month (a # b # c # rest) =
     (if a = CHR ''1'' \<and> b \<in> set ''012'' \<and> c = CHR ''-'' then Some (10 + digit_val b, rest)
      else if a = CHR ''0'' \<and> nonzero_digit b \<and> c = CHR ''-'' then Some (digit_val b, rest)
      else if nonzero_digit a \<and> b = CHR ''-'' then Some (digit_val a, c # rest)
      else None)"
| "match_month [a, b] =
     (if nonzero_digit a \<and> b = CHR ''-'' then Some (digit_val a, []) else None)"
| "match_month [a] = None"
| "match_month [] = None"

text \<open>The day alternatives in the order of the expression: the first that matches is taken.\<close>

fun match_day :: "string \<Rightarrow> (int \<times> string) option" where
  "match_day (a # b # rest) =
     (if a = CHR ''3'' \<and> b \<in> set ''01'' then Some (30 + digit_val b, rest)
      else if a \<in> set ''12'' \<and> is_digit b then Some (10 * digit_val a + digit_val b, rest)
      else if a = CHR ''0'' \<and> nonzero_digit b then Some (digit_val b, rest)
      else if nonzero_digit a then Some (digit_val a, b # rest)
      else if a = CHR '' '' \<and> nonzero_digit b then Some (digit_val b, rest)
      else None)"
| "match_day [a] = (if nonzero_digit a then Some (digit_val a, []) else None)"
| "match_day [] = None"

fun match_ymd :: "string \<Rightarrow> (int \<times> int \<times> int) option" where
  "match_ymd (y1 # y2 # y3 # y4 # dash # rest) =
     (if is_digit y1 \<and> is_digit y2 \<and> is_digit y3 \<and> is_digit y4 \<and> dash = CHR ''-'' then
        (case match_month rest of
           None \<Rightarrow> None
         | Some (m, rest1) \<Rightarrow>
             (case match_day rest1 of
                None \<Rightarrow> None
              | Some (d, rest2) \<Rightarrow>
                  if rest2 = [] then
                    Some (1000 * digit_val y1 + 100 * digit_val y2 + 10 * digit_val y3
                            + digit_val y4, m, d)
                  else None))
      else None)"
| "match_ymd s = None"

definition strptime :: "pyval \<Rightarrow> pyerr + datetime" where
  "strptime v =
     (case v of
        PStr s \<Rightarrow>
          (case match_ymd s of
             None \<Rightarrow> Inl ValueError
           | Some (y, m, d) \<Rightarrow>
               if 1 \<le> y \<and> d \<le> days_in_month y m then
                 Inr \<lparr>ordinal = ymd2ord y m d, hour = 0, minute = 0, second = 0,
                      microsecond = 0\<rparr>
               else Inl ValueError)
      | _ \<Rightarrow> Inl TypeError)"

section \<open>calculate_appointment\<close>

text \<open>
  \<^verbatim>\<open>datetime.now()\<close> is the parameter \<open>now\<close>. \<open>priority\<close> is an int at every call
  site; \<open>ai_date\<close> is whatever the AI answer held under \<^verbatim>\<open>appointment\<close>, or
  \<^verbatim>\<open>None\<close>.
\<close>

text \<open>
  \<^verbatim>\<open>
  if ai_date:
      try:
          ai_datetime = datetime.strptime(ai_date, "%Y-%m-%d")
          if ai_datetime.date() >= now.date():
              if priority >= 4 and (ai_datetime.date() - now.date()).days > 2:
                  return now + timedelta(days=1)
              elif priority == 3 and (ai_datetime.date() - now.date()).days > 7:
                  return now + timedelta(days=5)
              else:
                  return ai_datetime
      except ValueError:
          pass
  \<close>
  The result is \<open>Some r\<close> where the block returns \<open>r\<close> from the function and \<open>None\<close>
  where control goes on to the statements after it.
\<close>

definition ai_block :: "datetime \<Rightarrow> int \<Rightarrow> pyval \<Rightarrow> pyerr + datetime option" where
  "ai_block now priority ai_date =
     (if py_truthy ai_date then
        (case strptime ai_date of
           Inl e \<Rightarrow> if e = ValueError then Inr None else Inl e
         | Inr ai_datetime \<Rightarrow>
             if ordinal ai_datetime \<ge> ordinal now then
               (if priority \<ge> 4 \<and> ordinal ai_datetime - ordinal now > 2 then
                  bind_err (add_days now 1) (\<lambda>r. Inr (Some r))
                else if priority = 3 \<and> ordinal ai_datetime - ordinal now > 7 then
                  bind_err (add_days now 5) (\<lambda>r. Inr (Some r))
                else Inr (Some ai_datetime))
             else Inr None)
      else Inr None)"

text \<open>\<^verbatim>\<open>{1: 14, 2: 10, 3: 5, 4: 1, 5: 0}.get(priority, 14)\<close>\<close>

definition days_offset :: "int \<Rightarrow> int" where
  "days_offset priority =
     (case map_of [(1, 14), (2, 10), (3, 5), (4, 1), (5, 0)] priority of
        Some d \<Rightarrow> d
      | None \<Rightarrow> 14)"

text \<open>
  \<^verbatim>\<open>
  appointment = now + timedelta(days=days_offset)
  if priority >= 4 and now.hour >= 17:
      next_day = now.date() + timedelta(days=1)
      return datetime.combine(next_day, datetime.min.time()) + timedelta(hours=9)
  return appointment
  \<close>
\<close>

definition fallback_block :: "datetime \<Rightarrow> int \<Rightarrow> pyerr + datetime" where
  "fallback_block now priority =
     bind_err (add_days now (days_offset priority)) (\<lambda>appointment.
       if priority \<ge> 4 \<and> hour now \<ge> 17 then
         bind_err (date_add_days (ordinal now) 1) (\<lambda>next_day.
           Inr \<lparr>ordinal = next_day, hour = 9, minute = 0, second = 0, microsecond = 0\<rparr>)
       else Inr appointment)"

definition calculate_appointment :: "datetime \<Rightarrow> int \<Rightarrow> pyval \<Rightarrow> pyerr + datetime" where
  "calculate_appointment now priority ai_date =
     bind_err (ai_block now priority ai_date) (\<lambda>returned.
       case returned of
         Some r \<Rightarrow> Inr r
       | None \<Rightarrow> fallback_block now priority)"

section \<open>Inputs and notions used in the statements\<close>

text \<open>The leading decimal digit of a stage string, if it has one.\<close>

definition leading_digit :: "string \<Rightarrow> int option" where
  "leading_digit s =
     (case s of [] \<Rightarrow> None | c # cs \<Rightarrow> if is_digit c then Some (digit_val c) else None)"

text \<open>The intake of the worked example: stage "Stage 4", 39.0 degrees, 110 bpm, "severe pain".\<close>

definition stage4_intake :: "string \<rightharpoonup> pyval" where
  "stage4_intake =
     [''cancerStage'' \<mapsto> PStr ''Stage 4'', ''temp'' \<mapsto> PFloat (Finite 39),
      ''heart'' \<mapsto> PInt 110, ''description'' \<mapsto> PStr ''severe pain'']"

text \<open>
  An intake whose heart rate is the float infinity, as \<^verbatim>\<open>json.loads\<close> decodes
  \<^verbatim>\<open>"heart": 1e999\<close>.
\<close>

definition infinite_heart_intake :: "string \<rightharpoonup> pyval" where
  "infinite_heart_intake =
     [''cancerStage'' \<mapsto> PStr ''2'', ''temp'' \<mapsto> PFloat (Finite 37),
      ''heart'' \<mapsto> PFloat PosInf, ''description'' \<mapsto> PStr ''routine check'']"

text \<open>Two well-typed intakes: no factor present, and every factor present.\<close>

definition low_intake :: "string \<rightharpoonup> pyval" where
  "low_intake =
     [''cancerStage'' \<mapsto> PStr ''1'', ''temp'' \<mapsto> PFloat (Finite 37),
      ''heart'' \<mapsto> PInt 70, ''description'' \<mapsto> PStr ''routine check'']"

definition high_intake :: "string \<rightharpoonup> pyval" where
  "high_intake =
     [''cancerStage'' \<mapsto> PStr ''4'', ''temp'' \<mapsto> PFloat (Finite 39),
      ''heart'' \<mapsto> PInt 110, ''description'' \<mapsto> PStr ''severe pain'']"

text \<open>An intake outside the data model: the stage string starts with the digit 0.\<close>

definition zero_stage_intake :: "string \<rightharpoonup> pyval" where
  "zero_stage_intake =
     [''cancerStage'' \<mapsto> PStr ''0'', ''temp'' \<mapsto> PFloat (Finite 37),
      ''heart'' \<mapsto> PInt 70, ''description'' \<mapsto> PStr ''routine check'']"

text \<open>An intake whose description holds a keyword only inside another word.\<close>

definition painless_intake :: "string \<rightharpoonup> pyval" where
  "painless_intake =
     [''cancerStage'' \<mapsto> PStr ''1'', ''temp'' \<mapsto> PFloat (Finite 37),
      ''heart'' \<mapsto> PInt 70, ''description'' \<mapsto> PStr ''Painless swelling'']"

text \<open>
  A clock value for which the date arithmetic stays in Python's range: a valid datetime at
  least 14 days, the largest offset, before 9999-12-31.
\<close>

definition clock_in_range :: "datetime \<Rightarrow> bool" where
  "clock_in_range now \<longleftrightarrow> valid_datetime now \<and> ordinal now + 14 \<le> MAXORDINAL"

text \<open>
  No usable AI date: absent, or a string that does not parse (malformed) or that denotes
  a calendar date before today's (past).
\<close>

definition no_usable_ai_date :: "datetime \<Rightarrow> pyval \<Rightarrow> bool" where
  "no_usable_ai_date now ai_date \<longleftrightarrow>
     (case ai_date of
        PNone \<Rightarrow> True
      | PStr s \<Rightarrow>
          (case strptime (PStr s) of
             Inl e \<Rightarrow> True
           | Inr d \<Rightarrow> ordinal d < ordinal now)
      | _ \<Rightarrow> False)"

text \<open>The offset table as the specification writes it.\<close>

definition offset_table :: "int \<Rightarrow> int" where
  "offset_table priority =
     (if priority = 1 then 14 else if priority = 2 then 10 else if priority = 3 then 5
      else if priority = 4 then 1 else if priority = 5 then 0 else 14)"

text \<open>The same time of day \<open>k\<close> days later, and 09:00 of the next day.\<close>

definition plus_days :: "datetime \<Rightarrow> int \<Rightarrow> datetime" where
  "plus_days dt k = dt\<lparr>ordinal := ordinal dt + k\<rparr>"

definition next_morning :: "datetime \<Rightarrow> datetime" where
  "next_morning now =
     \<lparr>ordinal = ordinal now + 1, hour = 9, minute = 0, second = 0, microsecond = 0\<rparr>"

section \<open>Evaluation and basic facts\<close>

lemmas block_defs = calculate_priority_fallback_def stage_block_def vitals_block_def
  keyword_block_def bind_err_def raising_def except_pass_def py_lookup_def

lemmas int_defs = int_of_str_def strip_def is_space_def unsigned_of_str_def is_digit_def
  digit_val_def MAX_STR_DIGITS_def

lemmas text_defs = has_emergency_keyword_def emergency_keywords_def py_lower_def lower_char_def
  upper_letters_def lower_letters_def

lemmas date_defs = calculate_appointment_def ai_block_def fallback_block_def strptime_def
  bind_err_def mk_datetime_def ymd2ord_def days_before_year_def days_before_month_def
  days_in_month_def DAYS_IN_MONTH_def is_leap_def is_digit_def nonzero_digit_def digit_val_def
  add_days_def date_add_days_def MAXORDINAL_def days_offset_def Let_def

lemmas spec_defs = clock_in_range_def valid_datetime_def no_usable_ai_date_def offset_table_def
  plus_days_def next_morning_def dt_le_def


subsection \<open>\<^verbatim>\<open>int\<close> on one character, and the exceptions of the conversions\<close>

lemma int_of_str_char:
  "int_of_str [c] = (if is_digit c then Some (digit_val c) else None)"
  by (auto simp: int_of_str_def strip_def unsigned_of_str_def is_digit_def is_space_def
      MAX_STR_DIGITS_def)

lemma py_int_errors:
  "py_int v = Inl e \<Longrightarrow>
   e = TypeError \<or> e = ValueError \<or> (e = OverflowError \<and> v \<in> {PFloat PosInf, PFloat NegInf})"
  by (cases v rule: py_int.cases) (auto split: option.splits)

lemma py_float_errors:
  "py_float strtod v = Inl e \<Longrightarrow> e = TypeError \<or> e = ValueError \<or> e = OverflowError"
  by (cases v) (auto split: option.splits if_splits)

lemma leading_digit_range: "leading_digit s = Some k \<Longrightarrow> 0 \<le> k \<and> k \<le> 9"
  by (auto simp: leading_digit_def is_digit_def digit_val_def split: list.splits if_splits)

subsection \<open>The three blocks of calculate_priority_fallback\<close>

lemma stage_block_str:
  "data ''cancerStage'' = Some (PStr s) \<Longrightarrow>
   stage_block data p = Inr (case leading_digit s of None \<Rightarrow> p | Some k \<Rightarrow> p + min (k - 1) 3)"
  by (cases s) (simp_all add: stage_block_def py_lookup_def raising_def except_pass_def
      int_of_str_char leading_digit_def)

lemma vitals_block_typed:
  "data ''temp'' = Some (PFloat t) \<Longrightarrow> data ''heart'' = Some (PInt h) \<Longrightarrow>
   vitals_block strtod data p =
     Inr (p + (if float_gt t (77 / 2) then 1 else 0) + (if h > 100 \<or> h < 60 then 1 else 0))"
  by (simp add: vitals_block_def py_lookup_def raising_def except_pass_def Let_def)

lemma keyword_block_str:
  "data ''description'' = Some (PStr desc) \<Longrightarrow>
   keyword_block data p = Inr (p + (if has_emergency_keyword desc then 1 else 0))"
  by (simp add: keyword_block_def py_lookup_def bind_err_def)

lemma priority_typed:
  assumes "data ''cancerStage'' = Some (PStr s)" "data ''temp'' = Some (PFloat t)"
    "data ''heart'' = Some (PInt h)" "data ''description'' = Some (PStr desc)"
  shows "calculate_priority_fallback strtod data =
     Inr (min ((case leading_digit s of None \<Rightarrow> 1 | Some k \<Rightarrow> 1 + min (k - 1) 3)
            + (if float_gt t (77 / 2) then 1 else 0) + (if h > 100 \<or> h < 60 then 1 else 0)
            + (if has_emergency_keyword desc then 1 else 0)) 5)"
  using assms
  by (simp add: calculate_priority_fallback_def bind_err_def stage_block_str
      vitals_block_typed keyword_block_str)

text \<open>
  The vitals block absorbs every exception of the two conversions but \<^verbatim>\<open>OverflowError\<close>.
\<close>

lemma vitals_block_total:
  assumes "data ''temp'' = Some tv" "data ''heart'' = Some hv"
    and "py_float strtod tv \<noteq> Inl OverflowError" "py_int hv \<noteq> Inl OverflowError"
  shows "\<exists>q. vitals_block strtod data p = Inr q \<and> p \<le> q \<and> q \<le> p + 2"
proof (cases "py_float strtod tv")
  case (Inl e)
  with assms(3) have "e = TypeError \<or> e = ValueError" using py_float_errors by blast
  with Inl assms(1) show ?thesis
    by (auto simp: vitals_block_def py_lookup_def raising_def except_pass_def)
next
  case (Inr t)
  show ?thesis
  proof (cases "py_int hv")
    case (Inl e)
    with assms(4) have "e = TypeError \<or> e = ValueError" using py_int_errors by blast
    with Inl Inr assms(1,2) show ?thesis
      by (auto simp: vitals_block_def py_lookup_def raising_def except_pass_def Let_def)
  next
    case h: (Inr h)
    with Inr assms(1,2) show ?thesis
      by (auto simp: vitals_block_def py_lookup_def raising_def except_pass_def Let_def)
  qed
qed

text \<open>
  With a string for the stage and for the description, and vitals whose conversion does
  not overflow, the function returns a priority of at most 5.
\<close>

lemma priority_total:
  assumes "data ''cancerStage'' = Some (PStr s)" "data ''description'' = Some (PStr desc)"
    and "data ''temp'' = Some tv" "data ''heart'' = Some hv"
    and "py_float strtod tv \<noteq> Inl OverflowError" "py_int hv \<noteq> Inl OverflowError"
  shows "\<exists>p. calculate_priority_fallback strtod data = Inr p \<and> 0 \<le> p \<and> p \<le> 5"
proof -
  obtain p1 where p1: "stage_block data 1 = Inr p1" "0 \<le> p1"
    using stage_block_str [of data s 1] assms(1) leading_digit_range [of s]
    by (cases "leading_digit s") auto
  obtain p2 where p2: "vitals_block strtod data p1 = Inr p2" "p1 \<le> p2"
    using vitals_block_total [of data tv hv strtod p1] assms(3-6) by auto
  show ?thesis
    using p1 p2 keyword_block_str [of data desc p2] assms(2)
    by (simp add: calculate_priority_fallback_def bind_err_def)
qed

section \<open>Properties of validate_priority\<close>

lemma validate_priority_cases:
  "validate_priority v =
     (case py_int v of
        Inr n \<Rightarrow> Inr (if n < 1 then 1 else if 5 < n then 5 else n)
      | Inl e \<Rightarrow> if e = OverflowError then Inl OverflowError else Inr 1)"
  by (auto simp: validate_priority_def split: sum.splits dest: py_int_errors)

text \<open>Every value but the two float infinities is mapped into 1..5.\<close>

lemma validate_priority_range:
  assumes "v \<noteq> PFloat PosInf" "v \<noteq> PFloat NegInf"
  shows "\<exists>p. validate_priority v = Inr p \<and> 1 \<le> p \<and> p \<le> 5"
  using assms by (auto simp: validate_priority_cases split: sum.splits dest: py_int_errors)

text \<open>
  Claim C4: for every input value validate_priority returns an integer in 1..5, namely 1
  when the value cannot be coerced to an integer and the clamped integer otherwise.
  The code does so for every value except the float infinities: \<^verbatim>\<open>int\<close> raises
  \<^verbatim>\<open>OverflowError\<close> on them, which the \<^verbatim>\<open>except (ValueError, TypeError)\<close> clause
  does not catch, so the call raises instead of returning 1.
\<close>

theorem validate_priority_infinity: "validate_priority (PFloat PosInf) = Inl OverflowError"
  by (simp add: validate_priority_def)

section \<open>Properties of calculate_priority_fallback\<close>

text \<open>
  Claim C1: for the intake with stage "Stage 4", temperature 39.0, heart rate 110 and
  description "severe pain" the function returns 5 (base 1, stage 3, and 1 each for the
  temperature, the heart rate and a keyword, clamped to 5).
  The code returns 4: \<^verbatim>\<open>data['cancerStage'][0]\<close> is the letter S, \<^verbatim>\<open>int\<close> raises
  \<^verbatim>\<open>ValueError\<close> on it, and the stage adds nothing.
\<close>

theorem stage4_example: "calculate_priority_fallback strtod stage4_intake = Inr 4"
  by (simp add: stage4_intake_def block_defs int_defs text_defs)

text \<open>
  Claim C9: both functions are total; no input shape (any stage string, any temperature
  and heart rate values, any description text) makes them raise.
  An infinite heart rate makes calculate_priority_fallback raise \<^verbatim>\<open>OverflowError\<close>:
  the clause around the vitals catches \<^verbatim>\<open>ValueError\<close> and \<^verbatim>\<open>TypeError\<close> only.
\<close>

theorem infinite_heart_raises:
  "calculate_priority_fallback strtod infinite_heart_intake = Inl OverflowError"
  by (simp add: infinite_heart_intake_def block_defs int_defs)


subsection \<open>The keyword test is substring containment\<close>

lemma starts_with_iff: "starts_with k s \<longleftrightarrow> (\<exists>suf. s = k @ suf)"
  by (induction k s rule: starts_with.induct) auto

lemma py_in_iff: "py_in k s \<longleftrightarrow> (\<exists>pre suf. s = pre @ k @ suf)"
proof (induction s)
  case Nil
  then show ?case by simp
next
  case (Cons c cs)
  show ?case
  proof
    assume "py_in k (c # cs)"
    then consider "starts_with k (c # cs)" | "py_in k cs" by auto
    then show "\<exists>pre suf. c # cs = pre @ k @ suf"
    proof cases
      case 1
      then obtain suf where "c # cs = k @ suf" by (auto simp: starts_with_iff)
      then have "c # cs = [] @ k @ suf" by simp
      then show ?thesis by blast
    next
      case 2
      then obtain pre suf where "cs = pre @ k @ suf" using Cons.IH by auto
      then have "c # cs = (c # pre) @ k @ suf" by simp
      then show ?thesis by blast
    qed
  next
    assume "\<exists>pre suf. c # cs = pre @ k @ suf"
    then obtain pre suf where eq: "c # cs = pre @ k @ suf" by auto
    show "py_in k (c # cs)"
    proof (cases pre)
      case Nil
      with eq have "starts_with k (c # cs)" by (simp add: starts_with_iff)
      then show ?thesis by simp
    next
      case (Cons a pre')
      with eq have "cs = pre' @ k @ suf" by simp
      then show ?thesis using Cons.IH by auto
    qed
  qed
qed

lemma has_emergency_keyword_iff:
  "has_emergency_keyword desc \<longleftrightarrow>
     (\<exists>keyword \<in> set emergency_keywords. \<exists>pre suf. py_lower desc = pre @ keyword @ suf)"
  by (simp add: has_emergency_keyword_def list_ex_iff py_in_iff)

lemma no_keyword_in_empty: "\<not> has_emergency_keyword []"
  by (simp add: text_defs)

lemma stage_block_description:
  "stage_block (data(''description'' \<mapsto> v)) p = stage_block data p"
  by (simp add: stage_block_def py_lookup_def)

lemma vitals_block_description:
  "vitals_block strtod (data(''description'' \<mapsto> v)) p = vitals_block strtod data p"
  by (simp add: vitals_block_def py_lookup_def)

text \<open>
  Claim C10: the keyword check is plain substring containment on the lowercased
  description. The +1 is given exactly when some keyword occurs in the lowercased text
  at any position, inside another word ("pain" in "painless") as well: then the result
  is that of the same intake with an empty description plus one, capped at 5, and
  otherwise it is that result unchanged.
\<close>

theorem keyword_substring_adds_one:
  assumes "data ''description'' = Some (PStr desc)"
  shows "calculate_priority_fallback strtod data =
     bind_err (calculate_priority_fallback strtod (data(''description'' \<mapsto> PStr [])))
       (\<lambda>p. Inr (if (\<exists>keyword. keyword \<in> set emergency_keywords \<and>
                         (\<exists>pre suf. py_lower desc = pre @ keyword @ suf))
                   then min (p + 1) 5 else p))"
proof -
  have kw: "has_emergency_keyword desc \<longleftrightarrow>
      (\<exists>keyword. keyword \<in> set emergency_keywords \<and>
         (\<exists>pre suf. py_lower desc = pre @ keyword @ suf))"
    using has_emergency_keyword_iff [of desc] by blast
  have with_kw: "keyword_block data p =
      Inr (if (\<exists>keyword. keyword \<in> set emergency_keywords \<and>
                 (\<exists>pre suf. py_lower desc = pre @ keyword @ suf)) then p + 1 else p)" for p
    using keyword_block_str [of data desc p] assms kw by simp
  have without: "keyword_block (data(''description'' \<mapsto> PStr [])) p = Inr p" for p
    using keyword_block_str [of "data(''description'' \<mapsto> PStr [])" "[]" p] no_keyword_in_empty
    by simp
  show ?thesis
    by (auto simp: calculate_priority_fallback_def bind_err_def stage_block_description
        vitals_block_description with_kw without split: sum.splits)
qed

theorem keyword_substring_witness:
  "painless_intake ''description'' = Some (PStr ''Painless swelling'') \<and>
   py_lower ''Painless swelling'' = [] @ ''pain'' @ ''less swelling'' \<and>
   calculate_priority_fallback (\<lambda>s. None) (painless_intake(''description'' \<mapsto> PStr [])) = Inr 1 \<and>
   calculate_priority_fallback (\<lambda>s. None) painless_intake = Inr 2 \<and>
   low_intake ''description'' = Some (PStr ''routine check'') \<and>
   \<not> (\<exists>keyword. keyword \<in> set emergency_keywords \<and>
        (\<exists>pre suf. py_lower ''routine check'' = pre @ keyword @ suf)) \<and>
   calculate_priority_fallback (\<lambda>s. None) low_intake =
     calculate_priority_fallback (\<lambda>s. None) (low_intake(''description'' \<mapsto> PStr []))"
proof -
  have h1: "painless_intake ''description'' = Some (PStr ''Painless swelling'')"
    by (simp add: painless_intake_def)
  have h2: "''pain'' \<in> set emergency_keywords"
    by (simp add: emergency_keywords_def)
  have h3: "py_lower ''Painless swelling'' = [] @ ''pain'' @ ''less swelling''"
    by (simp add: text_defs)
  have yes: "\<exists>keyword. keyword \<in> set emergency_keywords \<and>
      (\<exists>pre suf. py_lower ''Painless swelling'' = pre @ keyword @ suf)"
    using h2 h3 by blast
  have base: "calculate_priority_fallback (\<lambda>s. None)
      (painless_intake(''description'' \<mapsto> PStr [])) = Inr 1"
    by (simp add: painless_intake_def block_defs int_defs text_defs)
  have a: "calculate_priority_fallback (\<lambda>s. None) painless_intake = Inr 2"
    using keyword_substring_adds_one [of painless_intake "''Painless swelling''" "\<lambda>s. None"]
      h1 yes base
    by (simp add: bind_err_def)
  have l1: "low_intake ''description'' = Some (PStr ''routine check'')"
    by (simp add: low_intake_def)
  have "\<not> has_emergency_keyword ''routine check''"
    by (simp add: text_defs)
  then have no: "\<not> (\<exists>keyword. keyword \<in> set emergency_keywords \<and>
      (\<exists>pre suf. py_lower ''routine check'' = pre @ keyword @ suf))"
    using has_emergency_keyword_iff [of "''routine check''"] by blast
  have lbase: "calculate_priority_fallback (\<lambda>s. None)
      (low_intake(''description'' \<mapsto> PStr [])) = Inr 1"
    by (simp add: low_intake_def block_defs int_defs text_defs)
  have b: "calculate_priority_fallback (\<lambda>s. None) low_intake =
      calculate_priority_fallback (\<lambda>s. None) (low_intake(''description'' \<mapsto> PStr []))"
    using keyword_substring_adds_one [of low_intake "''routine check''" "\<lambda>s. None"] l1 no lbase
    by (simp add: bind_err_def)
  show ?thesis
    using h1 h3 base a l1 no b by (intro conjI)
qed

subsection \<open>Range and monotonicity\<close>

text \<open>
  The stage adds \<open>min (stage - 1) 3\<close>, which is -1 for a leading digit 0: such a stage
  string, which the data model excludes, gives the priority 0.
\<close>

lemma zero_stage_example: "calculate_priority_fallback strtod zero_stage_intake = Inr 0"
  by (simp add: zero_stage_intake_def block_defs int_defs text_defs)

text \<open>
  Claim C8: for every well-typed intake (a stage string with a leading digit from 1 on,
  as the data model has it, a float temperature, an int heart rate, a text) the result
  is in 1..5; it does not decrease when the stage digit grows, the temperature passes
  38.5, the heart rate becomes abnormal or a keyword appears; the stage adds at most 3
  and each other factor at most 1.
\<close>

theorem priority_range_monotone:
  assumes "data ''cancerStage'' = Some (PStr s)" and "data ''temp'' = Some (PFloat t)"
    and "data ''heart'' = Some (PInt h)" and "data ''description'' = Some (PStr desc)"
    and "data' ''cancerStage'' = Some (PStr s')" and "data' ''temp'' = Some (PFloat t')"
    and "data' ''heart'' = Some (PInt h')" and "data' ''description'' = Some (PStr desc')"
    and "leading_digit s = Some k" and "leading_digit s' = Some k'"
    and "1 \<le> k" and "1 \<le> k'"
  shows "\<exists>p p'.
     calculate_priority_fallback strtod data = Inr p \<and>
     calculate_priority_fallback strtod data' = Inr p' \<and>
     1 \<le> p \<and> p \<le> 5 \<and>
     (k \<le> k' \<and> (float_gt t (77 / 2) \<longrightarrow> float_gt t' (77 / 2)) \<and>
      (h > 100 \<or> h < 60 \<longrightarrow> h' > 100 \<or> h' < 60) \<and>
      (has_emergency_keyword desc \<longrightarrow> has_emergency_keyword desc') \<longrightarrow> p \<le> p') \<and>
     p' \<le> p + (if k < k' then 3 else 0)
            + (if \<not> float_gt t (77 / 2) \<and> float_gt t' (77 / 2) then 1 else 0)
            + (if \<not> (h > 100 \<or> h < 60) \<and> (h' > 100 \<or> h' < 60) then 1 else 0)
            + (if \<not> has_emergency_keyword desc \<and> has_emergency_keyword desc' then 1 else 0)"
proof -
  define a a' where "a = min (k - 1) 3" and "a' = min (k' - 1) 3"
  define b b' :: int where "b = (if float_gt t (77 / 2) then 1 else 0)"
    and "b' = (if float_gt t' (77 / 2) then 1 else 0)"
  define c c' :: int where "c = (if h > 100 \<or> h < 60 then 1 else 0)"
    and "c' = (if h' > 100 \<or> h' < 60 then 1 else 0)"
  define d d' :: int where "d = (if has_emergency_keyword desc then 1 else 0)"
    and "d' = (if has_emergency_keyword desc' then 1 else 0)"
  define p p' where "p = min (1 + a + b + c + d) 5" and "p' = min (1 + a' + b' + c' + d') 5"
  have res: "calculate_priority_fallback strtod data = Inr p"
    using priority_typed [of data s t h desc strtod] assms(1-4,9)
    by (simp add: p_def a_def b_def c_def d_def)
  have res': "calculate_priority_fallback strtod data' = Inr p'"
    using priority_typed [of data' s' t' h' desc' strtod] assms(5-8,10)
    by (simp add: p'_def a'_def b'_def c'_def d'_def)
  have nonneg: "0 \<le> a" "0 \<le> b" "0 \<le> c" "0 \<le> d"
    using assms(11) by (simp_all add: a_def b_def c_def d_def)
  have range: "1 \<le> p" "p \<le> 5"
    using nonneg by (simp_all add: p_def)
  have mono: "p \<le> p'"
    if "k \<le> k'" "float_gt t (77 / 2) \<longrightarrow> float_gt t' (77 / 2)"
      "h > 100 \<or> h < 60 \<longrightarrow> h' > 100 \<or> h' < 60"
      "has_emergency_keyword desc \<longrightarrow> has_emergency_keyword desc'"
  proof -
    have "a \<le> a'" using that(1) by (simp add: a_def a'_def)
    moreover have "b \<le> b'" using that(2) by (simp add: b_def b'_def)
    moreover have "c \<le> c'" using that(3) by (simp add: c_def c'_def)
    moreover have "d \<le> d'" using that(4) by (simp add: d_def d'_def)
    ultimately show ?thesis by (simp add: p_def p'_def)
  qed
  have step: "p' \<le> p + (if k < k' then 3 else 0)
            + (if \<not> float_gt t (77 / 2) \<and> float_gt t' (77 / 2) then 1 else 0)
            + (if \<not> (h > 100 \<or> h < 60) \<and> (h' > 100 \<or> h' < 60) then 1 else 0)
            + (if \<not> has_emergency_keyword desc \<and> has_emergency_keyword desc' then 1 else 0)"
  proof -
    define ea eb ec ed :: int where "ea = (if k < k' then 3 else 0)"
      and "eb = (if \<not> float_gt t (77 / 2) \<and> float_gt t' (77 / 2) then 1 else 0)"
      and "ec = (if \<not> (h > 100 \<or> h < 60) \<and> (h' > 100 \<or> h' < 60) then 1 else 0)"
      and "ed = (if \<not> has_emergency_keyword desc \<and> has_emergency_keyword desc' then 1 else 0)"
    have "a' \<le> a + ea"
      using assms(11,12) unfolding a_def a'_def ea_def by (simp split: if_splits) linarith
    moreover have "b' \<le> b + eb" by (simp add: b_def b'_def eb_def)
    moreover have "c' \<le> c + ec" by (simp add: c_def c'_def ec_def)
    moreover have "d' \<le> d + ed" by (simp add: d_def d'_def ed_def)
    moreover have "0 \<le> ea" "0 \<le> eb" "0 \<le> ec" "0 \<le> ed"
      by (simp_all add: ea_def eb_def ec_def ed_def)
    ultimately have "p' \<le> p + ea + eb + ec + ed"
      unfolding p_def p'_def min_def by (simp split: if_splits)
    then show ?thesis
      by (simp add: ea_def eb_def ec_def ed_def)
  qed
  show ?thesis
    using res res' range mono step by blast
qed

theorem priority_range_monotone_witness:
  "calculate_priority_fallback (\<lambda>s. None) low_intake = Inr 1 \<and>
   calculate_priority_fallback (\<lambda>s. None) high_intake = Inr 5"
proof -
  have l: "low_intake ''cancerStage'' = Some (PStr ''1'')"
    "low_intake ''temp'' = Some (PFloat (Finite 37))"
    "low_intake ''heart'' = Some (PInt 70)"
    "low_intake ''description'' = Some (PStr ''routine check'')"
    by (simp_all add: low_intake_def)
  have h: "high_intake ''cancerStage'' = Some (PStr ''4'')"
    "high_intake ''temp'' = Some (PFloat (Finite 39))"
    "high_intake ''heart'' = Some (PInt 110)"
    "high_intake ''description'' = Some (PStr ''severe pain'')"
    by (simp_all add: high_intake_def)
  have digits: "leading_digit ''1'' = Some 1" "leading_digit ''4'' = Some 4"
    by (simp_all add: leading_digit_def is_digit_def digit_val_def)
  have kw: "\<not> has_emergency_keyword ''routine check''" "has_emergency_keyword ''severe pain''"
    by (simp_all add: text_defs)
  obtain p p' where r: "calculate_priority_fallback (\<lambda>s. None) low_intake = Inr p"
      "calculate_priority_fallback (\<lambda>s. None) high_intake = Inr p'"
      "1 \<le> p" "p \<le> p'" "p' \<le> p + 3 + 1 + 1 + 1"
    using priority_range_monotone [of low_intake "''1''" "Finite 37" 70 "''routine check''"
        high_intake "''4''" "Finite 39" 110 "''severe pain''" 1 4 "\<lambda>s. None"] l h digits kw
    by auto
  have "p = 1" "p' = 5"
    using r(1,2) by (simp_all add: low_intake_def high_intake_def block_defs int_defs text_defs)
  with r show ?thesis by simp
qed


section \<open>Properties of calculate_appointment\<close>

subsection \<open>The two paths of the function\<close>

lemma days_offset_table: "days_offset p = offset_table p"
  by (simp add: days_offset_def offset_table_def)

lemma offset_table_range: "0 \<le> offset_table p \<and> offset_table p \<le> 14"
  by (simp add: offset_table_def)

lemma strptime_str_error: "strptime (PStr s) = Inl e \<Longrightarrow> e = ValueError"
  by (auto simp: strptime_def split: option.splits if_splits)

lemma strptime_empty: "strptime (PStr []) = Inl ValueError"
  by (simp add: strptime_def)

lemma strptime_midnight:
  "strptime v = Inr d \<Longrightarrow>
   py_truthy v \<and> hour d = 0 \<and> minute d = 0 \<and> second d = 0 \<and> microsecond d = 0"
  by (cases v) (auto simp: strptime_def split: option.splits if_splits list.splits)

lemma add_days_in_range:
  "clock_in_range now \<Longrightarrow> 0 \<le> k \<Longrightarrow> k \<le> 14 \<Longrightarrow> add_days now k = Inr (plus_days now k)"
  by (simp add: add_days_def clock_in_range_def valid_datetime_def plus_days_def Let_def)

lemma ai_block_unusable:
  "no_usable_ai_date now ai_date \<Longrightarrow> ai_block now priority ai_date = Inr None"
  by (cases ai_date)
     (auto simp: no_usable_ai_date_def ai_block_def split: sum.splits dest: strptime_str_error)

lemma fallback_block_in_range:
  assumes "clock_in_range now"
  shows "fallback_block now priority =
     Inr (if priority \<ge> 4 \<and> hour now \<ge> 17 then next_morning now
          else plus_days now (offset_table priority))"
  using assms add_days_in_range [OF assms, of "offset_table priority"] offset_table_range [of priority]
  by (simp add: fallback_block_def bind_err_def days_offset_table date_add_days_def
      next_morning_def clock_in_range_def valid_datetime_def)

lemma appointment_unusable:
  assumes "clock_in_range now" "no_usable_ai_date now ai_date"
  shows "calculate_appointment now priority ai_date =
     Inr (if priority \<ge> 4 \<and> hour now \<ge> 17 then next_morning now
          else plus_days now (offset_table priority))"
  using fallback_block_in_range [OF assms(1)] ai_block_unusable [OF assms(2)]
  by (simp add: calculate_appointment_def bind_err_def)

lemma ai_block_accepted:
  assumes "clock_in_range now" "strptime ai_date = Inr d" "ordinal now \<le> ordinal d"
  shows "ai_block now priority ai_date =
     Inr (Some (if priority \<ge> 4 \<and> ordinal d - ordinal now > 2 then plus_days now 1
                else if priority = 3 \<and> ordinal d - ordinal now > 7 then plus_days now 5
                else d))"
  using assms strptime_midnight [OF assms(2)] add_days_in_range [OF assms(1), of 1]
    add_days_in_range [OF assms(1), of 5]
  by (simp add: ai_block_def bind_err_def)

lemma appointment_accepted:
  assumes "clock_in_range now" "strptime ai_date = Inr d" "ordinal now \<le> ordinal d"
  shows "calculate_appointment now priority ai_date =
     Inr (if priority \<ge> 4 \<and> ordinal d - ordinal now > 2 then plus_days now 1
          else if priority = 3 \<and> ordinal d - ordinal now > 7 then plus_days now 5
          else d)"
  using ai_block_accepted [OF assms]
  by (simp add: calculate_appointment_def bind_err_def)

lemma str_usable_or_not:
  "no_usable_ai_date now (PStr s) \<or> (\<exists>d. strptime (PStr s) = Inr d \<and> ordinal now \<le> ordinal d)"
  by (cases "strptime (PStr s)") (auto simp: no_usable_ai_date_def)

text \<open>
  For a clock in range, an int priority and an AI date that is absent or a string, the
  function returns a timestamp: the only exception of \<^verbatim>\<open>strptime\<close> on a string is
  the \<^verbatim>\<open>ValueError\<close> that the function catches.
\<close>

lemma appointment_total:
  assumes "clock_in_range now" "ai_date = PNone \<or> ai_date = PStr s"
  shows "\<exists>r. calculate_appointment now priority ai_date = Inr r"
proof -
  consider "no_usable_ai_date now ai_date"
    | d where "strptime ai_date = Inr d" "ordinal now \<le> ordinal d"
    using assms(2) str_usable_or_not [of now s] by (auto simp: no_usable_ai_date_def)
  then show ?thesis
  proof cases
    case 1
    then show ?thesis using appointment_unusable [OF assms(1)] by blast
  next
    case 2
    then show ?thesis using appointment_accepted [OF assms(1)] by blast
  qed
qed

lemma dt_le_refl: "dt_le a a"
  by (simp add: dt_le_def)

lemma dt_le_later_day: "ordinal a < ordinal b \<Longrightarrow> dt_le a b"
  by (simp add: dt_le_def)

lemma dt_le_plus_days: "0 \<le> k \<Longrightarrow> dt_le now (plus_days now k)"
  by (cases "k = 0") (auto simp: dt_le_def plus_days_def)

subsection \<open>The offset table\<close>

text \<open>
  Claim C5: with no usable AI date (absent, malformed or past) and the after-hours
  override not firing, the result is now plus 14, 10, 5, 1, 0 days for the priorities 1
  to 5 and plus 14 days for every other priority; at 2024-01-10 10:00 priority 5 gives
  2024-01-10 and priority 1 gives 2024-01-24.
\<close>

theorem fallback_offset_table:
  "(clock_in_range now \<and> no_usable_ai_date now ai_date \<and> \<not> (priority \<ge> 4 \<and> hour now \<ge> 17)
      \<longrightarrow> calculate_appointment now priority ai_date =
            Inr (plus_days now (offset_table priority))) \<and>
   calculate_appointment (mk_datetime 2024 1 10 10 0) 5 PNone = Inr (mk_datetime 2024 1 10 10 0) \<and>
   calculate_appointment (mk_datetime 2024 1 10 10 0) 1 PNone = Inr (mk_datetime 2024 1 24 10 0)"
proof (intro conjI impI)
  assume "clock_in_range now \<and> no_usable_ai_date now ai_date \<and> \<not> (priority \<ge> 4 \<and> hour now \<ge> 17)"
  then show "calculate_appointment now priority ai_date = Inr (plus_days now (offset_table priority))"
    using appointment_unusable [of now ai_date priority] by auto
next
  show "calculate_appointment (mk_datetime 2024 1 10 10 0) 5 PNone = Inr (mk_datetime 2024 1 10 10 0)"
    by (simp add: date_defs)
next
  show "calculate_appointment (mk_datetime 2024 1 10 10 0) 1 PNone = Inr (mk_datetime 2024 1 24 10 0)"
    by (simp add: date_defs)
qed

theorem fallback_offset_table_witness:
  "clock_in_range (mk_datetime 2024 1 10 10 0) \<and>
   no_usable_ai_date (mk_datetime 2024 1 10 10 0) (PStr ''next week'') \<and>
   calculate_appointment (mk_datetime 2024 1 10 10 0) 3 (PStr ''next week'') =
     Inr (mk_datetime 2024 1 15 10 0)"
proof -
  have h1: "clock_in_range (mk_datetime 2024 1 10 10 0)"
    by (simp add: spec_defs date_defs)
  have h2: "no_usable_ai_date (mk_datetime 2024 1 10 10 0) (PStr ''next week'')"
    by (simp add: spec_defs date_defs)
  have h3: "\<not> ((3::int) \<ge> 4 \<and> hour (mk_datetime 2024 1 10 10 0) \<ge> 17)"
    by simp
  have "calculate_appointment (mk_datetime 2024 1 10 10 0) 3 (PStr ''next week'') =
      Inr (plus_days (mk_datetime 2024 1 10 10 0) (offset_table 3))"
    using fallback_offset_table [of "mk_datetime 2024 1 10 10 0" "PStr ''next week''" 3] h1 h2 h3
    by blast
  moreover have "plus_days (mk_datetime 2024 1 10 10 0) (offset_table 3) = mk_datetime 2024 1 15 10 0"
    by (simp add: spec_defs date_defs)
  ultimately show ?thesis using h1 h2 by simp
qed

subsection \<open>An accepted AI date\<close>

text \<open>
  Claim C7: when the AI date parses, is not before today, the priority is 3 and the date
  is more than 7 days away, the result is now plus 5 days; at 2024-01-10 10:00 the AI
  date 2024-02-01 gives 2024-01-15.
\<close>

theorem medium_priority_far_date:
  "(clock_in_range now \<and> strptime ai_date = Inr d \<and> ordinal now \<le> ordinal d \<and>
    ordinal d - ordinal now > 7
      \<longrightarrow> calculate_appointment now 3 ai_date = Inr (plus_days now 5)) \<and>
   calculate_appointment (mk_datetime 2024 1 10 10 0) 3 (PStr ''2024-02-01'') =
     Inr (mk_datetime 2024 1 15 10 0)"
proof (intro conjI impI)
  assume "clock_in_range now \<and> strptime ai_date = Inr d \<and> ordinal now \<le> ordinal d \<and>
    ordinal d - ordinal now > 7"
  then show "calculate_appointment now 3 ai_date = Inr (plus_days now 5)"
    using appointment_accepted [of now ai_date d 3] by simp
next
  show "calculate_appointment (mk_datetime 2024 1 10 10 0) 3 (PStr ''2024-02-01'') =
     Inr (mk_datetime 2024 1 15 10 0)"
    by (simp add: date_defs)
qed

theorem medium_priority_far_date_witness:
  "clock_in_range (mk_datetime 2024 1 10 10 0) \<and>
   strptime (PStr ''2024-01-31'') = Inr (mk_datetime 2024 1 31 0 0) \<and>
   ordinal (mk_datetime 2024 1 31 0 0) - ordinal (mk_datetime 2024 1 10 10 0) = 21 \<and>
   calculate_appointment (mk_datetime 2024 1 10 10 0) 3 (PStr ''2024-01-31'') =
     Inr (mk_datetime 2024 1 15 10 0)"
proof -
  have h1: "clock_in_range (mk_datetime 2024 1 10 10 0)"
    by (simp add: spec_defs date_defs)
  have h2: "strptime (PStr ''2024-01-31'') = Inr (mk_datetime 2024 1 31 0 0)"
    by (simp add: date_defs)
  have h3: "ordinal (mk_datetime 2024 1 31 0 0) - ordinal (mk_datetime 2024 1 10 10 0) = 21"
    by (simp add: date_defs)
  have "calculate_appointment (mk_datetime 2024 1 10 10 0) 3 (PStr ''2024-01-31'') =
      Inr (plus_days (mk_datetime 2024 1 10 10 0) 5)"
    using medium_priority_far_date [of "mk_datetime 2024 1 10 10 0" "PStr ''2024-01-31''"
        "mk_datetime 2024 1 31 0 0"] h1 h2 h3
    by simp
  moreover have "plus_days (mk_datetime 2024 1 10 10 0) 5 = mk_datetime 2024 1 15 10 0"
    by (simp add: spec_defs date_defs)
  ultimately show ?thesis using h1 h2 h3 by simp
qed

subsection \<open>The after-hours override\<close>

text \<open>
  The override is the last statement of the function, and the block for the AI date
  returns before it: at 2024-01-10 18:00 with priority 4 the AI date 2024-01-11 is
  returned as it is, at midnight, not at 09:00.
\<close>

theorem after_hours_accepted_date_counterexample:
  "calculate_appointment (mk_datetime 2024 1 10 18 0) 4 (PStr ''2024-01-11'') =
     Inr (mk_datetime 2024 1 11 0 0) \<and>
   mk_datetime 2024 1 11 0 0 \<noteq> mk_datetime 2024 1 11 9 0"
  by (simp add: date_defs)

text \<open>
  Claim C2, amended: for priority \<open>\<ge> 4\<close> and an hour \<open>\<ge> 17\<close> the result is tomorrow
  at 09:00 whenever no AI date is usable (absent, malformed or past). An AI date that
  parses and is not before today is answered by the first block alone: now plus one day
  when it is more than 2 days away, the date itself at midnight otherwise. For priority
  4 at 2024-01-10 18:00 the AI date 2024-01-11 gives 2024-01-11 00:00.
\<close>

theorem after_hours_override:
  "(clock_in_range now \<and> priority \<ge> 4 \<and> hour now \<ge> 17 \<and> no_usable_ai_date now ai_date
      \<longrightarrow> calculate_appointment now priority ai_date = Inr (next_morning now)) \<and>
   (clock_in_range now \<and> priority \<ge> 4 \<and> hour now \<ge> 17 \<and> strptime ai_date = Inr d \<and>
    ordinal now \<le> ordinal d
      \<longrightarrow> calculate_appointment now priority ai_date =
            Inr (if ordinal d - ordinal now > 2 then plus_days now 1 else d)) \<and>
   calculate_appointment (mk_datetime 2024 1 10 18 0) 4 (PStr ''2024-01-11'') =
     Inr (mk_datetime 2024 1 11 0 0)"
proof (intro conjI impI)
  assume "clock_in_range now \<and> priority \<ge> 4 \<and> hour now \<ge> 17 \<and> no_usable_ai_date now ai_date"
  then show "calculate_appointment now priority ai_date = Inr (next_morning now)"
    using appointment_unusable [of now ai_date priority] by simp
next
  assume "clock_in_range now \<and> priority \<ge> 4 \<and> hour now \<ge> 17 \<and> strptime ai_date = Inr d \<and>
    ordinal now \<le> ordinal d"
  then show "calculate_appointment now priority ai_date =
      Inr (if ordinal d - ordinal now > 2 then plus_days now 1 else d)"
    using appointment_accepted [of now ai_date d priority] by auto
next
  show "calculate_appointment (mk_datetime 2024 1 10 18 0) 4 (PStr ''2024-01-11'') =
     Inr (mk_datetime 2024 1 11 0 0)"
    by (simp add: date_defs)
qed

theorem after_hours_override_witness:
  "clock_in_range (mk_datetime 2024 1 10 18 0) \<and>
   no_usable_ai_date (mk_datetime 2024 1 10 18 0) PNone \<and>
   calculate_appointment (mk_datetime 2024 1 10 18 0) 4 PNone = Inr (mk_datetime 2024 1 11 9 0) \<and>
   strptime (PStr ''2024-01-20'') = Inr (mk_datetime 2024 1 20 0 0) \<and>
   calculate_appointment (mk_datetime 2024 1 10 18 0) 4 (PStr ''2024-01-20'') =
     Inr (mk_datetime 2024 1 11 18 0)"
proof -
  have h1: "clock_in_range (mk_datetime 2024 1 10 18 0)"
    by (simp add: spec_defs date_defs)
  have h2: "no_usable_ai_date (mk_datetime 2024 1 10 18 0) PNone"
    by (simp add: spec_defs)
  have h3: "(4::int) \<ge> 4 \<and> hour (mk_datetime 2024 1 10 18 0) \<ge> 17"
    by (simp add: mk_datetime_def)
  have h4: "strptime (PStr ''2024-01-20'') = Inr (mk_datetime 2024 1 20 0 0)"
    by (simp add: date_defs)
  have h5: "ordinal (mk_datetime 2024 1 10 18 0) \<le> ordinal (mk_datetime 2024 1 20 0 0)"
    by (simp add: date_defs)
  note inst = after_hours_override [of "mk_datetime 2024 1 10 18 0" 4 _
      "mk_datetime 2024 1 20 0 0"]
  have a: "calculate_appointment (mk_datetime 2024 1 10 18 0) 4 PNone =
      Inr (next_morning (mk_datetime 2024 1 10 18 0))"
    using inst [of PNone] h1 h2 h3 by blast
  have b: "calculate_appointment (mk_datetime 2024 1 10 18 0) 4 (PStr ''2024-01-20'') =
      Inr (if ordinal (mk_datetime 2024 1 20 0 0) - ordinal (mk_datetime 2024 1 10 18 0) > 2
           then plus_days (mk_datetime 2024 1 10 18 0) 1 else mk_datetime 2024 1 20 0 0)"
    using inst [of "PStr ''2024-01-20''"] h1 h3 h4 h5 by blast
  have c: "next_morning (mk_datetime 2024 1 10 18 0) = mk_datetime 2024 1 11 9 0"
    by (simp add: spec_defs date_defs)
  have d: "(if ordinal (mk_datetime 2024 1 20 0 0) - ordinal (mk_datetime 2024 1 10 18 0) > 2
           then plus_days (mk_datetime 2024 1 10 18 0) 1 else mk_datetime 2024 1 20 0 0) =
        mk_datetime 2024 1 11 18 0"
    by (simp add: spec_defs date_defs)
  show ?thesis using h1 h2 h4 a b c d by simp
qed

subsection \<open>The result and the current time\<close>

text \<open>
  An AI date equal to today's date is accepted and returned at midnight, which is before
  now; the priority is 2, so the after-hours rule is not involved.
\<close>

theorem same_day_ai_date_counterexample:
  "calculate_appointment (mk_datetime 2024 1 10 10 0) 2 (PStr ''2024-01-10'') =
     Inr (mk_datetime 2024 1 10 0 0) \<and>
   \<not> dt_le (mk_datetime 2024 1 10 10 0) (mk_datetime 2024 1 10 0 0)"
  by (simp add: date_defs dt_le_def)

text \<open>
  Claim C3, amended: for a clock in range, every priority and every AI date that is
  absent or a string, the function returns a timestamp whose calendar date is not before
  today's; the timestamp is at or after now, except when the AI date is accepted as it
  is and is today's date, where the result is today at midnight.
\<close>

theorem appointment_not_before_today:
  assumes "clock_in_range now" and "ai_date = PNone \<or> ai_date = PStr s"
  shows "\<exists>r. calculate_appointment now priority ai_date = Inr r \<and>
     ordinal now \<le> ordinal r \<and>
     (dt_le now r \<or> (strptime ai_date = Inr r \<and> ordinal r = ordinal now))"
proof -
  consider "no_usable_ai_date now ai_date"
    | d where "strptime ai_date = Inr d" "ordinal now \<le> ordinal d"
    using assms(2) str_usable_or_not [of now s] by (auto simp: no_usable_ai_date_def)
  then show ?thesis
  proof cases
    case 1
    show ?thesis
    proof (cases "priority \<ge> 4 \<and> hour now \<ge> 17")
      case True
      then have "calculate_appointment now priority ai_date = Inr (next_morning now)"
        using appointment_unusable [OF assms(1) 1, of priority] by simp
      moreover have "ordinal now < ordinal (next_morning now)"
        by (simp add: next_morning_def)
      ultimately show ?thesis using dt_le_later_day by fastforce
    next
      case False
      then have "calculate_appointment now priority ai_date =
          Inr (plus_days now (offset_table priority))"
        using appointment_unusable [OF assms(1) 1, of priority] by auto
      moreover have "0 \<le> offset_table priority" using offset_table_range by simp
      ultimately show ?thesis
        using dt_le_plus_days [of "offset_table priority" now] by (simp add: plus_days_def)
    qed
  next
    case 2
    note res = appointment_accepted [OF assms(1) 2, of priority]
    show ?thesis
    proof (cases "ordinal d = ordinal now")
      case True
      then show ?thesis using res 2 by simp
    next
      case False
      then have "ordinal now < ordinal d" using 2(2) by simp
      then show ?thesis
        using res dt_le_later_day [of now d] dt_le_plus_days [of 1 now] dt_le_plus_days [of 5 now]
        by (auto simp: plus_days_def)
    qed
  qed
qed

theorem appointment_not_before_today_witness:
  "clock_in_range (mk_datetime 2024 1 10 10 0) \<and>
   calculate_appointment (mk_datetime 2024 1 10 10 0) 2 (PStr ''2024-01-12'') =
     Inr (mk_datetime 2024 1 12 0 0) \<and>
   dt_le (mk_datetime 2024 1 10 10 0) (mk_datetime 2024 1 12 0 0)"
proof -
  have h1: "clock_in_range (mk_datetime 2024 1 10 10 0)"
    by (simp add: spec_defs date_defs)
  obtain r where r: "calculate_appointment (mk_datetime 2024 1 10 10 0) 2 (PStr ''2024-01-12'') = Inr r"
    "dt_le (mk_datetime 2024 1 10 10 0) r \<or>
     (strptime (PStr ''2024-01-12'') = Inr r \<and> ordinal r = ordinal (mk_datetime 2024 1 10 10 0))"
    using appointment_not_before_today [OF h1, of "PStr ''2024-01-12''" "''2024-01-12''" 2]
    by auto
  have v: "calculate_appointment (mk_datetime 2024 1 10 10 0) 2 (PStr ''2024-01-12'') =
      Inr (mk_datetime 2024 1 12 0 0)"
    by (simp add: date_defs)
  with r(1) have "r = mk_datetime 2024 1 12 0 0" by simp
  moreover have "ordinal (mk_datetime 2024 1 12 0 0) \<noteq> ordinal (mk_datetime 2024 1 10 10 0)"
    by (simp add: date_defs)
  ultimately have "dt_le (mk_datetime 2024 1 10 10 0) (mk_datetime 2024 1 12 0 0)"
    using r(2) by auto
  with h1 v show ?thesis by simp
qed

subsection \<open>A discarded AI date\<close>

text \<open>
  A past AI date at 18:00 with priority 4: the date is discarded and the result is the
  next morning at 09:00, not now plus the table's one day.
\<close>

theorem discarded_date_after_hours_counterexample:
  "strptime (PStr ''2024-01-09'') = Inr (mk_datetime 2024 1 9 0 0) \<and>
   calculate_appointment (mk_datetime 2024 1 10 18 0) 4 (PStr ''2024-01-09'') =
     Inr (mk_datetime 2024 1 11 9 0) \<and>
   add_days (mk_datetime 2024 1 10 18 0) (days_offset 4) = Inr (mk_datetime 2024 1 11 18 0) \<and>
   mk_datetime 2024 1 11 9 0 \<noteq> mk_datetime 2024 1 11 18 0"
  by (simp add: date_defs)

text \<open>
  Claim C6, amended: an AI string that is malformed or denotes a date before today is
  discarded without an exception, and the result is that of a call with no AI date: now
  plus the offset of the table, or tomorrow at 09:00 where the priority is \<open>\<ge> 4\<close> and the
  hour \<open>\<ge> 17\<close>; priority 2 at 2024-01-10 10:00 with the AI date 2024-01-09 gives
  2024-01-20.
\<close>

theorem unusable_ai_date_discarded:
  "(clock_in_range now \<and> no_usable_ai_date now (PStr s)
      \<longrightarrow> calculate_appointment now priority (PStr s) = calculate_appointment now priority PNone \<and>
          calculate_appointment now priority (PStr s) =
            Inr (if priority \<ge> 4 \<and> hour now \<ge> 17 then next_morning now
                 else plus_days now (offset_table priority))) \<and>
   calculate_appointment (mk_datetime 2024 1 10 10 0) 2 (PStr ''2024-01-09'') =
     Inr (mk_datetime 2024 1 20 10 0)"
proof (intro conjI impI)
  assume h: "clock_in_range now \<and> no_usable_ai_date now (PStr s)"
  have none: "no_usable_ai_date now PNone" by (simp add: no_usable_ai_date_def)
  show "calculate_appointment now priority (PStr s) = calculate_appointment now priority PNone"
    using h none appointment_unusable [of now "PStr s" priority]
      appointment_unusable [of now PNone priority] by simp
  show "calculate_appointment now priority (PStr s) =
      Inr (if priority \<ge> 4 \<and> hour now \<ge> 17 then next_morning now
           else plus_days now (offset_table priority))"
    using h appointment_unusable [of now "PStr s" priority] by simp
next
  show "calculate_appointment (mk_datetime 2024 1 10 10 0) 2 (PStr ''2024-01-09'') =
     Inr (mk_datetime 2024 1 20 10 0)"
    by (simp add: date_defs)
qed

theorem unusable_ai_date_discarded_witness:
  "clock_in_range (mk_datetime 2024 1 10 10 0) \<and>
   no_usable_ai_date (mk_datetime 2024 1 10 10 0) (PStr ''2024-02-30'') \<and>
   calculate_appointment (mk_datetime 2024 1 10 10 0) 2 (PStr ''2024-02-30'') =
     calculate_appointment (mk_datetime 2024 1 10 10 0) 2 PNone \<and>
   calculate_appointment (mk_datetime 2024 1 10 10 0) 2 (PStr ''2024-02-30'') =
     Inr (mk_datetime 2024 1 20 10 0)"
proof -
  have h1: "clock_in_range (mk_datetime 2024 1 10 10 0)"
    by (simp add: spec_defs date_defs)
  have h2: "no_usable_ai_date (mk_datetime 2024 1 10 10 0) (PStr ''2024-02-30'')"
    by (simp add: spec_defs date_defs)
  have v: "(if (2::int) \<ge> 4 \<and> hour (mk_datetime 2024 1 10 10 0) \<ge> 17
            then next_morning (mk_datetime 2024 1 10 10 0)
            else plus_days (mk_datetime 2024 1 10 10 0) (offset_table 2)) =
        mk_datetime 2024 1 20 10 0"
    by (simp add: spec_defs date_defs)
  note inst = unusable_ai_date_discarded [of "mk_datetime 2024 1 10 10 0" "''2024-02-30''" 2]
  have a: "calculate_appointment (mk_datetime 2024 1 10 10 0) 2 (PStr ''2024-02-30'') =
      calculate_appointment (mk_datetime 2024 1 10 10 0) 2 PNone"
    using inst h1 h2 by blast
  have "calculate_appointment (mk_datetime 2024 1 10 10 0) 2 (PStr ''2024-02-30'') =
      Inr (if (2::int) \<ge> 4 \<and> hour (mk_datetime 2024 1 10 10 0) \<ge> 17
           then next_morning (mk_datetime 2024 1 10 10 0)
           else plus_days (mk_datetime 2024 1 10 10 0) (offset_table 2))"
    using inst h1 h2 by blast
  then have b: "calculate_appointment (mk_datetime 2024 1 10 10 0) 2 (PStr ''2024-02-30'') =
      Inr (mk_datetime 2024 1 20 10 0)"
    using v by simp
  show ?thesis
    using h1 h2 a b by (intro conjI)
qed

end
